theory Spec2Isabelle
  imports Main "HOL-Library.Sublist"
begin

section \<open>Python values, types and exceptions\<close>

text \<open>
  The value classes that frame properties, defaults, cast results, error messages and
  format arguments range over. The code never computes with a float or a byte buffer; it
  only type-tests, prints and passes them on, so both are carried by their \<open>repr\<close> text.
  No class of this universe is a subclass of another one, so \<open>isinstance(v, t)\<close> is
  \<open>type(v) is t\<close>.
\<close>

datatype pytype = TNoneType | TInt | TFloat | TStr | TBytes | TType

datatype pyval =
    PyNone
  | PyInt int
  | PyFloat string
  | PyStr string
  | PyBytes string
  | PyType pytype

fun type_of :: "pyval \<Rightarrow> pytype" where
  "type_of PyNone = TNoneType"
| "type_of (PyInt _) = TInt"
| "type_of (PyFloat _) = TFloat"
| "type_of (PyStr _) = TStr"
| "type_of (PyBytes _) = TBytes"
| "type_of (PyType _) = TType"

definition py_isinstance :: "pyval \<Rightarrow> pytype \<Rightarrow> bool" where
  "py_isinstance v t = (type_of v = t)"

fun type_name :: "pytype \<Rightarrow> string" where
  "type_name TNoneType = ''NoneType''"
| "type_name TInt = ''int''"
| "type_name TFloat = ''float''"
| "type_name TStr = ''str''"
| "type_name TBytes = ''bytes''"
| "type_name TType = ''type''"

text \<open>\<open>str(n)\<close> for an integer: its decimal digits, with a minus sign when negative.\<close>

definition digit_char :: "nat \<Rightarrow> char" where
  "digit_char d = ''0123456789'' ! d"

function nat_digits :: "nat \<Rightarrow> string" where
  "nat_digits n = (if n < 10 then [digit_char n] else nat_digits (n div 10) @ [digit_char (n mod 10)])"
  by pat_completeness auto
termination
  by (relation "measure id") auto

declare nat_digits.simps [simp del]

definition int_str :: "int \<Rightarrow> string" where
  "int_str i = (if i < 0 then CHR ''-'' # nat_digits (nat (- i)) else nat_digits (nat i))"

text \<open>\<open>str(v)\<close>; a class prints as \<open><class 'name'>\<close>.\<close>

fun py_str :: "pyval \<Rightarrow> string" where
  "py_str PyNone = ''None''"
| "py_str (PyInt i) = int_str i"
| "py_str (PyFloat r) = r"
| "py_str (PyStr s) = s"
| "py_str (PyBytes r) = r"
| "py_str (PyType t) = ''<class '' @ [CHR 0x27] @ type_name t @ [CHR 0x27] @ ''>''"

text \<open>
  The exception classes: the built-in ones the code names or inherits from, the classes
  of \<open>exceptions/base.py\<close> with the bases their \<open>class\<close> statements list, and
  \<open>FramePropError\<close>.
\<close>

datatype pyclass =
    BaseException | Exception | KeyboardInterrupt | LookupError | KeyError | IndexError
  | TypeError | ValueError | RuntimeError | OSError | PermissionError
  | CustomError | CustomValueError | CustomKeyError | CustomTypeError
  | CustomRuntimeError | CustomPermissionError
  | FramePropError

text \<open>
  Modelled from the spec: the class \<open>FramePropError\<close> is imported by \<open>utils/props.py\<close>
  from a module that is not under src/; the spec calls it "a Key-category error under the
  hood", which is the base \<open>CustomKeyError\<close> below.
\<close>

fun bases :: "pyclass \<Rightarrow> pyclass list" where
  "bases BaseException = []"
| "bases Exception = [BaseException]"
| "bases KeyboardInterrupt = [BaseException]"
| "bases LookupError = [Exception]"
| "bases KeyError = [LookupError]"
| "bases IndexError = [LookupError]"
| "bases TypeError = [Exception]"
| "bases ValueError = [Exception]"
| "bases RuntimeError = [Exception]"
| "bases OSError = [Exception]"
| "bases PermissionError = [OSError]"
| "bases CustomError = [Exception]"
| "bases CustomValueError = [CustomError, ValueError]"
| "bases CustomKeyError = [CustomError, KeyError]"
| "bases CustomTypeError = [CustomError, TypeError]"
| "bases CustomRuntimeError = [CustomError, RuntimeError]"
| "bases CustomPermissionError = [CustomError, PermissionError]"
| "bases FramePropError = [CustomKeyError]"

fun class_depth :: "pyclass \<Rightarrow> nat" where
  "class_depth BaseException = 0"
| "class_depth Exception = 1"
| "class_depth KeyboardInterrupt = 1"
| "class_depth LookupError = 2"
| "class_depth KeyError = 3"
| "class_depth IndexError = 3"
| "class_depth TypeError = 2"
| "class_depth ValueError = 2"
| "class_depth RuntimeError = 2"
| "class_depth OSError = 2"
| "class_depth PermissionError = 3"
| "class_depth CustomError = 2"
| "class_depth CustomValueError = 3"
| "class_depth CustomKeyError = 4"
| "class_depth CustomTypeError = 3"
| "class_depth CustomRuntimeError = 3"
| "class_depth CustomPermissionError = 4"
| "class_depth FramePropError = 5"

text \<open>\<open>issubclass(c, d)\<close>: \<open>d\<close> is \<open>c\<close> or is reached from \<open>c\<close> through base classes.\<close>

function issubclass :: "pyclass \<Rightarrow> pyclass \<Rightarrow> bool" where
  "issubclass c d = (c = d \<or> list_ex (\<lambda>b. issubclass b d) (bases c))"
  by pat_completeness auto
termination
proof (relation "measure (\<lambda>(c, d). class_depth c)")
  show "wf (measure (\<lambda>(c, d). class_depth c))"
    by simp
next
  fix c d b :: pyclass
  assume "b \<in> set (bases c)"
  then have "class_depth b < class_depth c"
    by (cases c) auto
  then show "((b, d), (c, d)) \<in> measure (\<lambda>(c, d). class_depth c)"
    by simp
qed

declare issubclass.simps [simp del]

text \<open>An exception object: its class and its \<open>args\<close> tuple.\<close>

record pyexc =
  exc_class :: pyclass
  exc_args :: "pyval list"

definition isinstance :: "pyexc \<Rightarrow> pyclass \<Rightarrow> bool" where
  "isinstance e c = issubclass (exc_class e) c"

section \<open>The error hierarchy (\<open>exceptions/base.py\<close>)\<close>

text \<open>
  A function label (\<open>SupportsString | F\<close>): a function object with its name, or a string.
  A function object is always true; a string is true when it is not empty.
\<close>

datatype pyfunc = PyFunction string | PyLabel string

fun py_truthy :: "pyfunc \<Rightarrow> bool" where
  "py_truthy (PyFunction _) = True"
| "py_truthy (PyLabel s) = (s \<noteq> [])"

type_synonym kwargs = "string \<rightharpoonup> pyval"

text \<open>
  What the code reads from outside itself:
  \<^item> \<open>isatty\<close>: \<open>sys.stdout.isatty()\<close>;
  \<^item> \<open>norm_func_name\<close>: the helper of that name, imported from a module that is not
    under src/ (the spec: "normalized to a short human-readable name (external
    responsibility)");
  \<^item> \<open>format_field\<close>: what Python's \<open>str.format\<close> does from a replacement field that is
    not a plain keyword name on (a positional or auto-numbered field, attribute or index
    access, a conversion, a format specification), given the field name read so far, the
    rest of the template and the keyword arguments;
  \<^item> \<open>prop_error_message\<close>: the default message template of \<open>FramePropError\<close>, a class
    that is not under src/.
\<close>

record env =
  isatty :: bool
  norm_func_name :: "pyfunc \<Rightarrow> string"
  format_field :: "string \<Rightarrow> string \<Rightarrow> kwargs \<Rightarrow> pyexc + string"
  prop_error_message :: string

definition raise_exc :: "pyclass \<Rightarrow> pyval list \<Rightarrow> pyexc + 'a" where
  "raise_exc c args = Inl \<lparr>exc_class = c, exc_args = args\<rparr>"

definition emit :: "string \<Rightarrow> pyexc + string \<Rightarrow> pyexc + string" where
  "emit s r = (case r of Inl e \<Rightarrow> Inl e | Inr t \<Rightarrow> Inr (s @ t))"

definition all_digits :: "string \<Rightarrow> bool" where
  "all_digits s = list_all (\<lambda>c. c \<in> set ''0123456789'') s"

text \<open>
  \<open>template.format(**kwargs)\<close>, scanning the template from left to right. The third
  argument is \<open>None\<close> in literal text and \<open>Some name\<close> inside a replacement field whose
  name has been read up to \<open>name\<close>. \<open>{{\<close> and \<open>}}\<close> are the escaped braces; a field that
  is a plain keyword name is replaced by \<open>str\<close> of the keyword's value and raises
  \<open>KeyError\<close> when there is no such keyword; the first error ends the formatting.
\<close>

fun str_format ::
  "(string \<Rightarrow> string \<Rightarrow> kwargs \<Rightarrow> pyexc + string) \<Rightarrow> kwargs \<Rightarrow> string option \<Rightarrow> string
    \<Rightarrow> pyexc + string" where
  "str_format X kw None [] = Inr []"
| "str_format X kw None (c # cs) =
     (if c = CHR ''{'' then
        (case cs of
           [] \<Rightarrow> raise_exc ValueError [PyStr ''Single '{' encountered in format string'']
         | d # ds \<Rightarrow>
             if d = CHR ''{'' then emit ''{'' (str_format X kw None ds)
             else str_format X kw (Some []) cs)
      else if c = CHR ''}'' then
        (case cs of
           [] \<Rightarrow> raise_exc ValueError [PyStr ''Single '}' encountered in format string'']
         | d # ds \<Rightarrow>
             if d = CHR ''}'' then emit ''}'' (str_format X kw None ds)
             else raise_exc ValueError [PyStr ''Single '}' encountered in format string''])
      else emit [c] (str_format X kw None cs))"
| "str_format X kw (Some name) [] =
     raise_exc ValueError [PyStr ''expected '}' before end of string'']"
| "str_format X kw (Some name) (c # cs) =
     (if c = CHR ''}'' then
        (if name = [] \<or> all_digits name then X name (c # cs) kw
         else
           (case kw name of
              None \<Rightarrow> raise_exc KeyError [PyStr name]
            | Some v \<Rightarrow> emit (py_str v) (str_format X kw None cs)))
      else if c = CHR ''{'' then
        raise_exc ValueError [PyStr ''unexpected '{' in field name'']
      else if c \<in> set ''.[!:'' then X name (c # cs) kw
      else str_format X kw (Some (name @ [c])) cs)"

text \<open>
  Lines 47 to 56 of \<open>CustomError.__init__\<close>: the header made from the function label.
  \<open>if function:\<close> is Python's truth test, so \<open>None\<close> and a false label give no header.
\<close>

definition func_header :: "env \<Rightarrow> pyfunc option \<Rightarrow> string" where
  "func_header E function =
     (case function of
        None \<Rightarrow> []
      | Some f \<Rightarrow>
          if py_truthy f then
            (let func_name = norm_func_name E f;
                 header = ''('' @ func_name @ '')'';
                 header =
                   (if isatty E then (CHR 0x1B # ''[0;36m'') @ header @ (CHR 0x1B # ''[0m'')
                    else header)
             in header @ '' '')
          else [])"

text \<open>
  \<open>CustomError.__init__\<close>, with the class being instantiated as \<open>cls\<close>. The result is
  the initialised exception object, or the exception that \<open>format\<close> raised.
\<close>

definition CustomError_init ::
  "env \<Rightarrow> pyclass \<Rightarrow> pyval option \<Rightarrow> pyfunc option \<Rightarrow> kwargs \<Rightarrow> pyexc + pyexc" where
  "CustomError_init E cls message function kwargs =
     (case message of
        None \<Rightarrow> Inr \<lparr>exc_class = cls, exc_args = []\<rparr>
      | Some m \<Rightarrow>
          (case str_format (format_field E) kwargs None (py_str m) of
             Inl e \<Rightarrow> Inl e
           | Inr formatted \<Rightarrow>
               Inr \<lparr>exc_class = cls, exc_args = [PyStr (func_header E function @ formatted)]\<rparr>))"

text \<open>
  Modelled from the spec: the constructor of \<open>FramePropError\<close>, a class that is not under
  src/. \<open>get_prop\<close> calls it with the function label, the key and an optional message
  template and keywords; the spec makes it "a Key-category error under the hood" that
  carries "the key, the expected type, the actual type (for mismatches), and the
  normalized origin function label", so it hands them to \<open>CustomError.__init__\<close> with
  the key as the keyword \<open>key\<close>. Its default template is the field \<open>prop_error_message\<close>.
\<close>

definition FramePropError_init ::
  "env \<Rightarrow> pyfunc \<Rightarrow> string \<Rightarrow> string option \<Rightarrow> kwargs \<Rightarrow> pyexc + pyexc" where
  "FramePropError_init E function key message kwargs =
     CustomError_init E FramePropError
       (Some (PyStr (case message of None \<Rightarrow> prop_error_message E | Some m \<Rightarrow> m)))
       (Some function) (kwargs(''key'' \<mapsto> PyStr key))"

section \<open>Frames, nodes and property access (\<open>utils/props.py\<close>)\<close>

text \<open>
  A frame of the engine: its property container, and everything else it holds (planes,
  format, size) as \<open>content\<close>. A node is an object of the engine with an identity and a
  method \<open>get_frame\<close>, which yields the frame at an index or raises.
\<close>

type_synonym frameprops = "string \<rightharpoonup> pyval"

record 'c frame =
  content :: 'c
  props :: frameprops

record 'c node =
  node_id :: nat
  get_frame :: "nat \<Rightarrow> pyexc + 'c frame"

text \<open>\<open>HoldsPropValueT\<close>: what \<open>get_prop\<close> accepts as \<open>obj\<close>.\<close>

datatype 'c holds =
    VideoNode "'c node"
  | AudioNode "'c node"
  | VideoFrame "'c frame"
  | AudioFrame "'c frame"
  | FrameProps frameprops

text \<open>
  A key: a string, or a member of \<open>PropEnum\<close> with its \<open>prop_key\<close>. The enumeration is
  declared in a module that is not under src/; the spec has each member "mapping to a
  canonical string key", which is all that \<open>get_prop\<close> reads of it.
\<close>

datatype pykey = StrKey string | PropEnum string

text \<open>
  Modelled from the spec: the helper \<open>fallback\<close> is imported from a module that is not
  under src/; the spec calls it a "first non-missing of these values" helper.
\<close>

definition fallback :: "'a option \<Rightarrow> 'a \<Rightarrow> 'a" where
  "fallback v d = (case v of None \<Rightarrow> d | Some x \<Rightarrow> x)"

text \<open>Lines 78 to 83: the property container of \<open>obj\<close>.\<close>

fun resolve_props :: "'c holds \<Rightarrow> pyexc + frameprops" where
  "resolve_props (VideoNode obj) =
     (case get_frame obj 0 of Inl e \<Rightarrow> Inl e | Inr f \<Rightarrow> Inr (props f))"
| "resolve_props (AudioNode obj) =
     (case get_frame obj 0 of Inl e \<Rightarrow> Inl e | Inr f \<Rightarrow> Inr (props f))"
| "resolve_props (VideoFrame obj) = Inr (props obj)"
| "resolve_props (AudioFrame obj) = Inr (props obj)"
| "resolve_props (FrameProps obj) = Inr obj"

fun resolve_key :: "pykey \<Rightarrow> string" where
  "resolve_key (PropEnum prop_key) = prop_key"
| "resolve_key (StrKey key) = key"

text \<open>
  The body of the \<open>try\<close> statement (lines 91 to 99). It returns a value, or raises; with
  the exception it leaves the local variable \<open>prop\<close> as the handler finds it: \<open>None\<close> is
  the sentinel \<open>MISSING\<close> (the lookup raised), \<open>Some v\<close> the value looked up. A cast is a
  callable that returns a value or raises.
\<close>

type_synonym pycast = "pyval \<Rightarrow> pyexc + pyval"

definition get_prop_try ::
  "frameprops \<Rightarrow> string \<Rightarrow> pytype \<Rightarrow> pycast option \<Rightarrow> (pyexc \<times> pyval option) + pyval" where
  "get_prop_try props' key t cast =
     (case props' key of
        None \<Rightarrow> Inl (\<lparr>exc_class = KeyError, exc_args = [PyStr key]\<rparr>, None)
      | Some prop \<Rightarrow>
          if \<not> py_isinstance prop t then Inl (\<lparr>exc_class = TypeError, exc_args = []\<rparr>, Some prop)
          else
            (case cast of
               None \<Rightarrow> Inr prop
             | Some c \<Rightarrow> (case c prop of Inl e \<Rightarrow> Inl (e, Some prop) | Inr v \<Rightarrow> Inr v)))"

text \<open>
  The handler \<open>except BaseException as e\<close> (lines 100 to 114). The default is \<open>None\<close> for
  the sentinel \<open>MISSING\<close> and \<open>Some d\<close> for a default \<open>d\<close> the caller gave. The test
  \<open>isinstance(e, KeyError) or prop is MISSING\<close> is split on \<open>prop\<close> first, so that
  \<open>type(prop)\<close> is read where \<open>prop\<close> holds a value. An exception raised while the
  \<open>FramePropError\<close> is built leaves the handler in its place.
\<close>

definition get_prop_except ::
  "env \<Rightarrow> pyfunc \<Rightarrow> string \<Rightarrow> pytype \<Rightarrow> pyval option \<Rightarrow> pyexc \<Rightarrow> pyval option \<Rightarrow> pyexc + pyval" where
  "get_prop_except E func key t default' e prop =
     (case default' of
        Some d \<Rightarrow> Inr d
      | None \<Rightarrow>
          (case
             (case prop of
                None \<Rightarrow>
                  FramePropError_init E func key (Some ''Key {key} not present in props!'') Map.empty
              | Some p \<Rightarrow>
                  if isinstance e KeyError then
                    FramePropError_init E func key (Some ''Key {key} not present in props!'') Map.empty
                  else if isinstance e TypeError then
                    FramePropError_init E func key
                      (Some ''Key {key} did not contain expected type: Expected {t} got {prop_t}!'')
                      [''t'' \<mapsto> PyType t, ''prop_t'' \<mapsto> PyType (type_of p)]
                  else FramePropError_init E func key None Map.empty)
           of Inl e' \<Rightarrow> Inl e' | Inr e' \<Rightarrow> Inl e'))"

definition get_prop ::
  "env \<Rightarrow> 'c holds \<Rightarrow> pykey \<Rightarrow> pytype \<Rightarrow> pycast option \<Rightarrow> pyval option \<Rightarrow> pyfunc option
    \<Rightarrow> pyexc + pyval" where
  "get_prop E obj key t cast default' func =
     (let func = fallback func (PyFunction ''get_prop'') in
      case resolve_props obj of
        Inl e \<Rightarrow> Inl e
      | Inr props' \<Rightarrow>
          (let key = resolve_key key in
           case get_prop_try props' key t cast of
             Inr v \<Rightarrow> Inr v
           | Inl (e, prop) \<Rightarrow> get_prop_except E func key t default' e prop))"

section \<open>Merging the properties of clips\<close>

text \<open>\<open>xs[i]\<close> on a Python list or tuple: a negative index counts from the end.\<close>

definition py_getitem :: "'a list \<Rightarrow> int \<Rightarrow> pyexc + 'a" where
  "py_getitem xs i =
     (let n = int (length xs); j = (if i < 0 then n + i else i)
      in if 0 \<le> j \<and> j < n then Inr (xs ! nat j)
         else raise_exc IndexError [PyStr ''list index out of range''])"

text \<open>
  The loop of \<open>_merge_props\<close> (lines 124 to 128) over \<open>enumerate(f)\<close>; \<open>dict.update\<close> is
  map override.
\<close>

fun merge_loop :: "int \<Rightarrow> (nat \<times> 'c frame) list \<Rightarrow> 'c frame \<Rightarrow> 'c frame" where
  "merge_loop main_idx [] fdst = fdst"
| "merge_loop main_idx ((i, frame) # rest) fdst =
     (if int i = main_idx then merge_loop main_idx rest fdst
      else merge_loop main_idx rest (fdst\<lparr>props := props fdst ++ props frame\<rparr>))"

definition merge_props :: "int \<Rightarrow> 'c frame list \<Rightarrow> nat \<Rightarrow> pyexc + 'c frame" where
  "merge_props main_idx f n =
     (case py_getitem f main_idx of
        Inl e \<Rightarrow> Inl e
      | Inr fdst \<Rightarrow> Inr (merge_loop main_idx (enumerate 0 f) fdst))"

text \<open>The frames of several clips at one index; the first that raises ends the request.\<close>

fun frames_at :: "'c node list \<Rightarrow> nat \<Rightarrow> pyexc + 'c frame list" where
  "frames_at [] n = Inr []"
| "frames_at (c # cs) n =
     (case get_frame c n of
        Inl e \<Rightarrow> Inl e
      | Inr f \<Rightarrow> (case frames_at cs n of Inl e \<Rightarrow> Inl e | Inr fs \<Rightarrow> Inr (f # fs)))"

text \<open>
  The engine's filter \<open>std.ModifyFrame\<close>, as the spec describes it: "produce one output
  frame as a pure function of N input frames at the same index". It makes a new node,
  whose identity is the next one the engine has not used.
\<close>

definition ModifyFrame ::
  "'c node \<Rightarrow> 'c node list \<Rightarrow> ('c frame list \<Rightarrow> nat \<Rightarrow> pyexc + 'c frame) \<Rightarrow> nat \<Rightarrow> 'c node \<times> nat" where
  "ModifyFrame clip clips selector fresh =
     (\<lparr>node_id = fresh,
       get_frame = (\<lambda>n. case frames_at clips n of Inl e \<Rightarrow> Inl e | Inr f \<Rightarrow> selector f n)\<rparr>,
      Suc fresh)"

text \<open>
  \<open>merge_clip_props(*clips, main_idx)\<close>. The last argument and the second component of
  the result are the engine's next unused node identity before and after the call.
\<close>

definition merge_clip_props :: "'c node list \<Rightarrow> int \<Rightarrow> nat \<Rightarrow> (pyexc + 'c node) \<times> nat" where
  "merge_clip_props clips main_idx fresh =
     (if length clips = 1 then (py_getitem clips 0, fresh)
      else
        (case py_getitem clips 0 of
           Inl e \<Rightarrow> (Inl e, fresh)
         | Inr clip \<Rightarrow>
             (case ModifyFrame clip clips (merge_props main_idx) fresh of
                (node, fresh') \<Rightarrow> (Inr node, fresh'))))"

section \<open>Templates and their placeholders\<close>

text \<open>
  A message template as a sequence of pieces: literal text, and named placeholders. Its
  text, as a caller writes it for \<open>format\<close>, doubles the braces of the literal text and
  puts each placeholder's name in braces. \<open>render\<close> is the template with every
  placeholder substituted by \<open>str\<close> of the keyword's value.
\<close>

datatype segment = Lit string | Field string

definition escape_braces :: "string \<Rightarrow> string" where
  "escape_braces s = concat (map (\<lambda>c. if c = CHR ''{'' \<or> c = CHR ''}'' then [c, c] else [c]) s)"

fun template_text :: "segment list \<Rightarrow> string" where
  "template_text [] = []"
| "template_text (Lit s # segs) = escape_braces s @ template_text segs"
| "template_text (Field name # segs) = ''{'' @ name @ ''}'' @ template_text segs"

fun render :: "kwargs \<Rightarrow> segment list \<Rightarrow> string" where
  "render kw [] = []"
| "render kw (Lit s # segs) = s @ render kw segs"
| "render kw (Field name # segs) =
     (case kw name of None \<Rightarrow> [] | Some v \<Rightarrow> py_str v) @ render kw segs"

text \<open>
  A plain keyword name: not empty, not a number (those are positional fields), and free
  of the characters that end or structure a replacement field.
\<close>

definition plain_name :: "string \<Rightarrow> bool" where
  "plain_name name =
     (name \<noteq> [] \<and> \<not> all_digits name \<and> list_all (\<lambda>c. c \<notin> set ''{}.[!:'') name)"

fun named_fields :: "segment list \<Rightarrow> string list" where
  "named_fields [] = []"
| "named_fields (Lit s # segs) = named_fields segs"
| "named_fields (Field name # segs) = name # named_fields segs"

section \<open>An environment and clips for the examples\<close>

definition plain_env :: env where
  "plain_env =
     \<lparr>isatty = False,
      norm_func_name = (\<lambda>f. case f of PyFunction name \<Rightarrow> name | PyLabel s \<Rightarrow> s),
      format_field = (\<lambda>name rest kw. raise_exc ValueError []),
      prop_error_message = ''Error while trying to get frame prop {key}!''\<rparr>"

definition const_clip :: "nat \<Rightarrow> 'c \<Rightarrow> frameprops \<Rightarrow> 'c node" where
  "const_clip i c p = \<lparr>node_id = i, get_frame = (\<lambda>n. Inr \<lparr>content = c, props = p\<rparr>)\<rparr>"

text \<open>The five error variants, each with the standard category it extends.\<close>

definition error_variants :: "(pyclass \<times> pyclass) list" where
  "error_variants =
     [(CustomValueError, ValueError), (CustomKeyError, KeyError), (CustomTypeError, TypeError),
      (CustomRuntimeError, RuntimeError), (CustomPermissionError, PermissionError)]"

section \<open>The class hierarchy\<close>

lemma issubclass_step:
  "issubclass a c \<longleftrightarrow> a = c \<or> (\<exists>x \<in> set (bases a). issubclass x c)"
  by (subst issubclass.simps) (simp add: list_ex_iff)

lemma issubclass_trans: "issubclass a b \<Longrightarrow> issubclass b c \<Longrightarrow> issubclass a c"
proof (induction a b rule: issubclass.induct)
  case (1 a b)
  show ?case
  proof (cases "a = b")
    case True
    with "1.prems" show ?thesis by simp
  next
    case False
    with "1.prems"(1) obtain x where x: "x \<in> set (bases a)" "issubclass x b"
      using issubclass_step[of a b] by blast
    from "1.IH"[OF x(1) x(2) "1.prems"(2)] have "issubclass x c" .
    with x(1) show ?thesis
      using issubclass_step[of a c] by blast
  qed
qed

lemma variant_subclasses:
  "issubclass CustomValueError CustomError" "issubclass CustomValueError ValueError"
  "issubclass CustomKeyError CustomError" "issubclass CustomKeyError KeyError"
  "issubclass CustomTypeError CustomError" "issubclass CustomTypeError TypeError"
  "issubclass CustomRuntimeError CustomError" "issubclass CustomRuntimeError RuntimeError"
  "issubclass CustomPermissionError CustomError" "issubclass CustomPermissionError PermissionError"
  by code_simp+

text \<open>
  C7. An exception that is an instance of one of the five variants (of the variant's
  class or of a class derived from it) is an instance of \<open>CustomError\<close> and of the
  standard category the variant extends, so a handler for either catches it.
\<close>

theorem variants_catchable:
  assumes "(v, std) \<in> set error_variants" and "isinstance e v"
  shows "isinstance e CustomError \<and> isinstance e std"
proof -
  from assms(1) have "issubclass v CustomError \<and> issubclass v std"
    unfolding error_variants_def using variant_subclasses by auto
  with assms(2) show ?thesis
    unfolding isinstance_def by (blast intro: issubclass_trans)
qed

theorem variants_catchable_witness:
  "(CustomKeyError, KeyError) \<in> set error_variants
   \<and> isinstance \<lparr>exc_class = FramePropError, exc_args = []\<rparr> CustomKeyError
   \<and> isinstance \<lparr>exc_class = FramePropError, exc_args = []\<rparr> CustomError
   \<and> isinstance \<lparr>exc_class = FramePropError, exc_args = []\<rparr> KeyError"
proof -
  have m: "(CustomKeyError, KeyError) \<in> set error_variants"
    by (simp add: error_variants_def)
  have "issubclass FramePropError CustomKeyError"
    by code_simp
  then have i: "isinstance \<lparr>exc_class = FramePropError, exc_args = []\<rparr> CustomKeyError"
    by (simp add: isinstance_def)
  from variants_catchable [OF m i] m i show ?thesis
    by simp
qed

section \<open>Constructing an error\<close>

text \<open>
  C10. With \<open>message=None\<close> the constructor of \<open>CustomError\<close>, or of any class derived from
  it, ignores the function label and the keywords: the error has no text and no header,
  whatever label is supplied.
\<close>

theorem CustomError_init_no_message:
  "CustomError_init E cls None function kwargs = Inr \<lparr>exc_class = cls, exc_args = []\<rparr>"
  by (simp add: CustomError_init_def)

lemma emit_Nil: "emit [] r = r"
  by (cases r) (simp_all add: emit_def)

lemma emit_append: "emit (a @ b) r = emit a (emit b r)"
  by (cases r) (simp_all add: emit_def)

lemma emit_Cons: "emit (c # s) r = emit [c] (emit s r)"
  using emit_append [of "[c]" s r] by simp

lemma str_format_literal:
  "str_format X kw None (escape_braces s @ rest) = emit s (str_format X kw None rest)"
proof (induction s)
  case Nil
  show ?case by (simp add: escape_braces_def emit_Nil)
next
  case (Cons c s)
  have e: "escape_braces (c # s)
      = (if c = CHR ''{'' \<or> c = CHR ''}'' then [c, c] else [c]) @ escape_braces s"
    by (simp add: escape_braces_def)
  show ?case
    by (subst emit_Cons) (simp add: e Cons.IH)
qed

lemma str_format_name:
  "list_all (\<lambda>c. c \<notin> set ''{}.[!:'') n \<Longrightarrow>
   str_format X kw (Some acc) (n @ CHR ''}'' # rest) =
     (if acc @ n = [] \<or> all_digits (acc @ n) then X (acc @ n) (CHR ''}'' # rest) kw
      else (case kw (acc @ n) of
              None \<Rightarrow> raise_exc KeyError [PyStr (acc @ n)]
            | Some v \<Rightarrow> emit (py_str v) (str_format X kw None rest)))"
proof (induction n arbitrary: acc)
  case Nil
  show ?case by (simp split: option.split)
next
  case (Cons c n)
  from Cons.prems have c: "c \<noteq> CHR ''}''" "c \<noteq> CHR ''{''" "c \<notin> set ''.[!:''"
    and n: "list_all (\<lambda>c. c \<notin> set ''{}.[!:'') n"
    by auto
  have step: "str_format X kw (Some acc) ((c # n) @ CHR ''}'' # rest)
      = str_format X kw (Some (acc @ [c])) (n @ CHR ''}'' # rest)"
    using c by simp
  have eq: "(acc @ [c]) @ n = acc @ c # n"
    by simp
  show ?case
    unfolding step Cons.IH [OF n] eq by (rule refl)
qed

lemma str_format_field:
  assumes "plain_name n"
  shows "str_format X kw None (''{'' @ n @ ''}'' @ rest) =
     (case kw n of
        None \<Rightarrow> raise_exc KeyError [PyStr n]
      | Some v \<Rightarrow> emit (py_str v) (str_format X kw None rest))"
proof -
  from assms obtain c n' where n: "n = c # n'" and c: "c \<noteq> CHR ''{''"
    by (cases n) (auto simp: plain_name_def)
  have "str_format X kw None (''{'' @ n @ ''}'' @ rest)
      = str_format X kw (Some []) (n @ CHR ''}'' # rest)"
    using c by (simp add: n)
  also have "\<dots> = (case kw n of
        None \<Rightarrow> raise_exc KeyError [PyStr n]
      | Some v \<Rightarrow> emit (py_str v) (str_format X kw None rest))"
    using assms by (subst str_format_name) (simp_all add: plain_name_def split: option.split)
  finally show ?thesis .
qed

lemma str_format_template:
  "\<forall>n \<in> set (named_fields segs). plain_name n \<and> n \<in> dom kw \<Longrightarrow>
   str_format X kw None (template_text segs) = Inr (render kw segs)"
proof (induction segs rule: template_text.induct)
  case 1
  show ?case by simp
next
  case (2 s segs)
  then show ?case
    by (simp add: str_format_literal emit_def)
next
  case (3 name segs)
  then have "plain_name name" and "name \<in> dom kw"
    and "str_format X kw None (template_text segs) = Inr (render kw segs)"
    by simp_all
  then show ?case
    using str_format_field [of name X kw "template_text segs"]
    by (auto simp: emit_def)
qed

text \<open>
  C8, as amended. With \<open>message=None\<close> the error has no text. Otherwise, for a message
  whose string representation is a template of literal text and named placeholders, each
  a plain keyword name with a keyword of that name supplied, the stored message is the
  header made from the function label followed by the template with every placeholder
  substituted by \<open>str\<close> of its keyword's value. The header is empty when there is no
  label or the label is false in Python's truth test (the empty string); for a label that
  is true it is the normalized name in parentheses, inside the colour codes when the
  output is a terminal, followed by a space.
\<close>

theorem CustomError_init_message:
  assumes "py_str m = template_text segs"
    and "\<forall>n \<in> set (named_fields segs). plain_name n \<and> n \<in> dom kwargs"
  shows "CustomError_init E cls None fn kwargs = Inr \<lparr>exc_class = cls, exc_args = []\<rparr>
    \<and> CustomError_init E cls (Some m) fn kwargs
        = Inr \<lparr>exc_class = cls, exc_args = [PyStr (func_header E fn @ render kwargs segs)]\<rparr>
    \<and> (fn = None \<longrightarrow> func_header E fn = [])
    \<and> (\<forall>f. fn = Some f \<and> \<not> py_truthy f \<longrightarrow> func_header E fn = [])
    \<and> (\<forall>f. fn = Some f \<and> py_truthy f \<longrightarrow>
          func_header E fn =
            (if isatty E
             then (CHR 0x1B # ''[0;36m'') @ ''('' @ norm_func_name E f @ '')'' @ (CHR 0x1B # ''[0m'')
             else ''('' @ norm_func_name E f @ '')'') @ '' '')"
proof (intro conjI allI impI)
  show "CustomError_init E cls None fn kwargs = Inr \<lparr>exc_class = cls, exc_args = []\<rparr>"
    by (simp add: CustomError_init_def)
next
  have "str_format (format_field E) kwargs None (py_str m) = Inr (render kwargs segs)"
    unfolding assms(1) using assms(2) by (rule str_format_template)
  then show "CustomError_init E cls (Some m) fn kwargs
      = Inr \<lparr>exc_class = cls, exc_args = [PyStr (func_header E fn @ render kwargs segs)]\<rparr>"
    by (simp add: CustomError_init_def)
next
  assume "fn = None"
  then show "func_header E fn = []"
    by (simp add: func_header_def)
next
  fix f
  assume "fn = Some f \<and> \<not> py_truthy f"
  then show "func_header E fn = []"
    by (simp add: func_header_def)
next
  fix f
  assume "fn = Some f \<and> py_truthy f"
  then show "func_header E fn =
      (if isatty E
       then (CHR 0x1B # ''[0;36m'') @ ''('' @ norm_func_name E f @ '')'' @ (CHR 0x1B # ''[0m'')
       else ''('' @ norm_func_name E f @ '')'') @ '' ''"
    by (simp add: func_header_def Let_def)
qed

theorem CustomError_init_message_witness:
  "CustomError_init (plain_env\<lparr>isatty := True\<rparr>) CustomValueError
      (Some (PyStr ''Key {key} not in {{props}} of {clip}'')) (Some (PyFunction ''get_prop''))
      [''key'' \<mapsto> PyStr ''_Matrix'', ''clip'' \<mapsto> PyNone]
    = Inr \<lparr>exc_class = CustomValueError,
           exc_args = [PyStr ((CHR 0x1B # ''[0;36m(get_prop)'') @ (CHR 0x1B # ''[0m'')
                         @ '' Key _Matrix not in {props} of None'')]\<rparr>"
proof -
  let ?segs = "[Lit ''Key '', Field ''key'', Lit '' not in {props} of '', Field ''clip'']"
  let ?kw = "[''key'' \<mapsto> PyStr ''_Matrix'', ''clip'' \<mapsto> PyNone]"
  have t: "py_str (PyStr ''Key {key} not in {{props}} of {clip}'') = template_text ?segs"
    by (simp add: escape_braces_def)
  have f: "\<forall>n \<in> set (named_fields ?segs). plain_name n \<and> n \<in> dom ?kw"
    by (simp add: plain_name_def all_digits_def)
  show ?thesis
    using CustomError_init_message [OF t f, where E = "plain_env\<lparr>isatty := True\<rparr>"
        and cls = CustomValueError and fn = "Some (PyFunction ''get_prop'')"]
    by (simp add: plain_env_def)
qed

text \<open>
  C8, as the claim states it, fails for a label that is supplied but false: with the
  empty string as the function label no header is prepended.
\<close>

theorem CustomError_init_empty_label:
  "CustomError_init plain_env CustomError (Some (PyStr ''boom'')) (Some (PyLabel [])) Map.empty
     = Inr \<lparr>exc_class = CustomError, exc_args = [PyStr ''boom'']\<rparr>
   \<and> CustomError_init plain_env CustomError (Some (PyStr ''boom'')) (Some (PyLabel [])) Map.empty
     \<noteq> Inr \<lparr>exc_class = CustomError,
             exc_args = [PyStr (''('' @ norm_func_name plain_env (PyLabel []) @ '') '' @ ''boom'')]\<rparr>"
  by (simp add: CustomError_init_def func_header_def emit_def)

section \<open>Reading a property\<close>

lemma get_prop_resolved:
  assumes "resolve_props obj = Inr p"
  shows "get_prop E obj key t cast d func =
    (case get_prop_try p (resolve_key key) t cast of
       Inr v \<Rightarrow> Inr v
     | Inl (e, prop) \<Rightarrow>
         get_prop_except E (fallback func (PyFunction ''get_prop'')) (resolve_key key) t d e prop)"
  using assms by (simp add: get_prop_def Let_def)

lemma get_prop_try_missing:
  "p k = None \<Longrightarrow>
   get_prop_try p k t cast = Inl (\<lparr>exc_class = KeyError, exc_args = [PyStr k]\<rparr>, None)"
  by (simp add: get_prop_try_def)

lemma get_prop_try_mismatch:
  "p k = Some v \<Longrightarrow> \<not> py_isinstance v t \<Longrightarrow>
   get_prop_try p k t cast = Inl (\<lparr>exc_class = TypeError, exc_args = []\<rparr>, Some v)"
  by (simp add: get_prop_try_def)

lemma get_prop_try_found:
  "p k = Some v \<Longrightarrow> py_isinstance v t \<Longrightarrow>
   get_prop_try p k t cast =
     (case cast of None \<Rightarrow> Inr v
      | Some c \<Rightarrow> (case c v of Inl e \<Rightarrow> Inl (e, Some v) | Inr r \<Rightarrow> Inr r))"
  by (simp add: get_prop_try_def)

lemma get_prop_except_default:
  "get_prop_except E f k t (Some D) e prop = Inr D"
  by (simp add: get_prop_except_def)

lemma format_missing_key:
  "str_format X (kw(''key'' \<mapsto> PyStr k)) None ''Key {key} not present in props!''
     = Inr (''Key '' @ k @ '' not present in props!'')"
  by (simp add: emit_def all_digits_def)

lemma format_wrong_type:
  "str_format X ([''t'' \<mapsto> PyType t, ''prop_t'' \<mapsto> PyType u](''key'' \<mapsto> PyStr k)) None
      ''Key {key} did not contain expected type: Expected {t} got {prop_t}!''
     = Inr (''Key '' @ k @ '' did not contain expected type: Expected <class ''
            @ [CHR 0x27] @ type_name t @ [CHR 0x27] @ ''> got <class ''
            @ [CHR 0x27] @ type_name u @ [CHR 0x27] @ ''>!'')"
  by (simp add: emit_def all_digits_def)

lemma FramePropError_missing_key:
  "FramePropError_init E f k (Some ''Key {key} not present in props!'') Map.empty
     = Inr \<lparr>exc_class = FramePropError,
            exc_args = [PyStr (func_header E (Some f) @ ''Key '' @ k @ '' not present in props!'')]\<rparr>"
  unfolding FramePropError_init_def CustomError_init_def
  by (simp add: format_missing_key del: str_format.simps)

lemma FramePropError_wrong_type:
  "FramePropError_init E f k
      (Some ''Key {key} did not contain expected type: Expected {t} got {prop_t}!'')
      [''t'' \<mapsto> PyType t, ''prop_t'' \<mapsto> PyType u]
     = Inr \<lparr>exc_class = FramePropError,
            exc_args = [PyStr (func_header E (Some f) @ ''Key '' @ k
              @ '' did not contain expected type: Expected <class ''
              @ [CHR 0x27] @ type_name t @ [CHR 0x27] @ ''> got <class ''
              @ [CHR 0x27] @ type_name u @ [CHR 0x27] @ ''>!'')]\<rparr>"
  unfolding FramePropError_init_def CustomError_init_def
  by (simp add: format_wrong_type del: str_format.simps)

lemma get_prop_except_missing:
  "isinstance e KeyError \<or> pr = None \<Longrightarrow>
   get_prop_except E f k t None e pr
     = Inl \<lparr>exc_class = FramePropError,
            exc_args = [PyStr (func_header E (Some f) @ ''Key '' @ k @ '' not present in props!'')]\<rparr>"
  unfolding get_prop_except_def
  by (auto simp: FramePropError_missing_key split: option.splits)

lemma get_prop_except_wrong_type:
  "\<not> isinstance e KeyError \<Longrightarrow> isinstance e TypeError \<Longrightarrow>
   get_prop_except E f k t None e (Some v)
     = Inl \<lparr>exc_class = FramePropError,
            exc_args = [PyStr (func_header E (Some f) @ ''Key '' @ k
              @ '' did not contain expected type: Expected <class ''
              @ [CHR 0x27] @ type_name t @ [CHR 0x27] @ ''> got <class ''
              @ [CHR 0x27] @ type_name (type_of v) @ [CHR 0x27] @ ''>!'')]\<rparr>"
  unfolding get_prop_except_def
  by (simp add: FramePropError_wrong_type)

lemma raised_classes:
  "isinstance \<lparr>exc_class = KeyError, exc_args = a\<rparr> KeyError"
  "isinstance \<lparr>exc_class = TypeError, exc_args = a\<rparr> TypeError"
  "\<not> isinstance \<lparr>exc_class = TypeError, exc_args = a\<rparr> KeyError"
  "isinstance \<lparr>exc_class = FramePropError, exc_args = a\<rparr> FramePropError"
  unfolding isinstance_def by (simp, code_simp)+

lemma sublist_mid: "sublist x (a @ x @ b)"
  unfolding sublist_def by blast

lemma py_str_5: "py_str (PyInt 5) = ''5''"
  by code_simp

text \<open>
  C1. When the container of \<open>obj\<close> has no entry for the key, or has one whose value is not
  an instance of \<open>T\<close>, \<open>get_prop\<close> with a default \<open>D\<close> returns \<open>D\<close>, whatever \<open>D\<close> is
  (\<open>None\<close>, \<open>0\<close> and empty values included: \<open>Some D\<close> is a default that was given).
\<close>

theorem get_prop_default:
  assumes "resolve_props obj = Inr p"
    and "p (resolve_key key) = None
         \<or> (\<exists>v. p (resolve_key key) = Some v \<and> \<not> py_isinstance v T)"
  shows "get_prop E obj key T cast (Some D) func = Inr D"
  using assms(2)
  by (auto simp: get_prop_resolved [OF assms(1)] get_prop_try_missing get_prop_try_mismatch
      get_prop_except_default)

theorem get_prop_default_witness:
  "get_prop plain_env (FrameProps Map.empty :: unit holds) (StrKey ''key1'') TInt None
     (Some (PyInt (- 1))) None = Inr (PyInt (- 1))
   \<and> get_prop plain_env (VideoFrame \<lparr>content = (), props = [''key1'' \<mapsto> PyStr ''a'']\<rparr>)
       (PropEnum ''key1'') TInt None (Some PyNone) None = Inr PyNone"
proof -
  have a: "resolve_props (FrameProps Map.empty :: unit holds) = Inr Map.empty"
    by simp
  have b: "resolve_props (VideoFrame \<lparr>content = (), props = [''key1'' \<mapsto> PyStr ''a'']\<rparr>)
      = Inr [''key1'' \<mapsto> PyStr ''a'']"
    by simp
  have c: "\<exists>v. [''key1'' \<mapsto> PyStr ''a''] (resolve_key (PropEnum ''key1'')) = Some v
      \<and> \<not> py_isinstance v TInt"
    by (simp add: py_isinstance_def)
  show ?thesis
    using get_prop_default [OF a disjI1, where key = "StrKey ''key1''" and E = plain_env and T = TInt
        and cast = None and D = "PyInt (- 1)" and func = None]
      get_prop_default [OF b disjI2, OF c, where E = plain_env and cast = None and D = PyNone
        and func = None]
    by simp
qed

text \<open>
  C2. With no default, \<open>get_prop\<close> raises a \<open>FramePropError\<close> whose message contains the
  key (the \<open>prop_key\<close> for a member of \<open>PropEnum\<close>) when the container has no entry for
  it, and contains the name of \<open>T\<close> and the name of the value's type when the entry is
  not an instance of \<open>T\<close>.
\<close>

theorem get_prop_error_message:
  assumes "resolve_props obj = Inr p"
  shows "(p (resolve_key key) = None \<longrightarrow>
           (\<exists>e msg. get_prop E obj key T cast None func = Inl e
              \<and> exc_class e = FramePropError \<and> exc_args e = [PyStr msg]
              \<and> sublist (resolve_key key) msg))
       \<and> (\<forall>v. p (resolve_key key) = Some v \<and> \<not> py_isinstance v T \<longrightarrow>
           (\<exists>e msg. get_prop E obj key T cast None func = Inl e
              \<and> exc_class e = FramePropError \<and> exc_args e = [PyStr msg]
              \<and> sublist (type_name T) msg \<and> sublist (type_name (type_of v)) msg))"
proof (intro conjI allI impI)
  let ?h = "func_header E (Some (fallback func (PyFunction ''get_prop'')))"
  let ?k = "resolve_key key"
  assume "p ?k = None"
  then have "get_prop E obj key T cast None func
      = Inl \<lparr>exc_class = FramePropError,
             exc_args = [PyStr (?h @ ''Key '' @ ?k @ '' not present in props!'')]\<rparr>"
    by (simp add: get_prop_resolved [OF assms] get_prop_try_missing get_prop_except_missing)
  moreover have "sublist ?k (?h @ ''Key '' @ ?k @ '' not present in props!'')"
    using sublist_mid [of ?k "?h @ ''Key ''" "'' not present in props!''"] by simp
  ultimately show "\<exists>e msg. get_prop E obj key T cast None func = Inl e
      \<and> exc_class e = FramePropError \<and> exc_args e = [PyStr msg] \<and> sublist ?k msg"
    by simp
next
  fix v
  let ?h = "func_header E (Some (fallback func (PyFunction ''get_prop'')))"
  let ?k = "resolve_key key"
  let ?a = "?h @ ''Key '' @ ?k @ '' did not contain expected type: Expected <class '' @ [CHR 0x27]"
  let ?b = "[CHR 0x27] @ ''> got <class '' @ [CHR 0x27]"
  let ?c = "[CHR 0x27] @ ''>!''"
  let ?msg = "?a @ type_name T @ ?b @ type_name (type_of v) @ ?c"
  assume v: "p ?k = Some v \<and> \<not> py_isinstance v T"
  then have "get_prop E obj key T cast None func
      = Inl \<lparr>exc_class = FramePropError, exc_args = [PyStr ?msg]\<rparr>"
    by (simp add: get_prop_resolved [OF assms] get_prop_try_mismatch get_prop_except_wrong_type
        raised_classes)
  moreover have "sublist (type_name T) ?msg"
    by (rule sublist_mid)
  moreover have "sublist (type_name (type_of v)) ?msg"
    using sublist_mid [of "type_name (type_of v)" "?a @ type_name T @ ?b" ?c] by simp
  ultimately show "\<exists>e msg. get_prop E obj key T cast None func = Inl e
      \<and> exc_class e = FramePropError \<and> exc_args e = [PyStr msg]
      \<and> sublist (type_name T) msg \<and> sublist (type_name (type_of v)) msg"
    by simp
qed

theorem get_prop_error_message_witness:
  "(\<exists>e msg. get_prop plain_env (FrameProps Map.empty :: unit holds) (StrKey ''key1'') TInt None
        None None = Inl e
      \<and> exc_class e = FramePropError \<and> exc_args e = [PyStr msg] \<and> sublist ''key1'' msg)
   \<and> (\<exists>e msg. get_prop plain_env (FrameProps [''key1'' \<mapsto> PyStr ''a''] :: unit holds)
        (StrKey ''key1'') TInt None None None = Inl e
      \<and> exc_class e = FramePropError \<and> exc_args e = [PyStr msg]
      \<and> sublist ''int'' msg \<and> sublist ''str'' msg)"
proof -
  have a: "resolve_props (FrameProps Map.empty :: unit holds) = Inr Map.empty"
    by simp
  have b: "resolve_props (FrameProps [''key1'' \<mapsto> PyStr ''a''] :: unit holds)
      = Inr [''key1'' \<mapsto> PyStr ''a'']"
    by simp
  show ?thesis
    using get_prop_error_message [OF a, where key = "StrKey ''key1''" and E = plain_env
        and T = TInt and cast = None and func = None]
      get_prop_error_message [OF b, where key = "StrKey ''key1''" and E = plain_env
        and T = TInt and cast = None and func = None]
    by (simp add: py_isinstance_def)
qed

text \<open>
  C3. With a cast \<open>C\<close>: when the value looked up is an instance of \<open>T\<close> and \<open>C\<close> returns,
  \<open>get_prop\<close> returns \<open>C(value)\<close>; with \<open>cast=None\<close> it returns the value itself; and when
  the key is missing or the value is not an instance of \<open>T\<close> the outcome is the same for
  every cast and for none, so \<open>C\<close> is not applied: the type test comes first.
\<close>

theorem get_prop_cast:
  assumes "resolve_props obj = Inr p"
  shows "(\<forall>v r. p (resolve_key key) = Some v \<and> py_isinstance v T \<and> C v = Inr r \<longrightarrow>
            get_prop E obj key T (Some C) d func = Inr r)
       \<and> (\<forall>v. p (resolve_key key) = Some v \<and> py_isinstance v T \<longrightarrow>
            get_prop E obj key T None d func = Inr v)
       \<and> (p (resolve_key key) = None
            \<or> (\<exists>v. p (resolve_key key) = Some v \<and> \<not> py_isinstance v T) \<longrightarrow>
            (\<forall>C'. get_prop E obj key T (Some C) d func = get_prop E obj key T C' d func))"
  by (auto simp: get_prop_resolved [OF assms] get_prop_try_found get_prop_try_missing
      get_prop_try_mismatch)

theorem get_prop_cast_witness:
  "get_prop plain_env (FrameProps [''key1'' \<mapsto> PyInt 5] :: unit holds) (StrKey ''key1'') TInt
      (Some (\<lambda>v. Inr (PyStr (py_str v)))) (Some (PyStr ''x'')) None = Inr (PyStr ''5'')
   \<and> get_prop plain_env (FrameProps [''key1'' \<mapsto> PyInt 5] :: unit holds) (StrKey ''key1'') TInt
      None (Some (PyStr ''x'')) None = Inr (PyInt 5)
   \<and> get_prop plain_env (FrameProps [''key1'' \<mapsto> PyInt 5] :: unit holds) (StrKey ''key1'') TStr
      (Some (\<lambda>v. Inr (PyStr (py_str v)))) (Some (PyStr ''x'')) None
     = get_prop plain_env (FrameProps [''key1'' \<mapsto> PyInt 5] :: unit holds) (StrKey ''key1'') TStr
      (Some (\<lambda>v. raise_exc RuntimeError [])) (Some (PyStr ''x'')) None"
proof -
  have a: "resolve_props (FrameProps [''key1'' \<mapsto> PyInt 5] :: unit holds)
      = Inr [''key1'' \<mapsto> PyInt 5]"
    by simp
  show ?thesis
    using get_prop_cast [OF a, where key = "StrKey ''key1''" and E = plain_env and T = TInt
        and C = "\<lambda>v. Inr (PyStr (py_str v))" and d = "Some (PyStr ''x'')" and func = None]
      get_prop_cast [OF a, where key = "StrKey ''key1''" and E = plain_env and T = TStr
        and C = "\<lambda>v. Inr (PyStr (py_str v))" and d = "Some (PyStr ''x'')" and func = None]
    by (simp add: py_isinstance_def py_str_5 del: py_str.simps)
qed

text \<open>
  C9. With a default \<open>D\<close>, \<open>get_prop\<close> raises nothing from the lookup, the type test or
  the cast: it returns a value, and it returns \<open>D\<close> for every exception raised there,
  also one that the cast raises on a value that passed the type test, of whatever class
  (the witness takes \<open>KeyboardInterrupt\<close>, which is not an \<open>Exception\<close>).
\<close>

theorem default_swallows_every_exception:
  assumes "resolve_props obj = Inr p"
  shows "(\<exists>v. get_prop E obj key T cast (Some D) func = Inr v)
    \<and> (\<forall>e prop. get_prop_try p (resolve_key key) T cast = Inl (e, prop)
          \<longrightarrow> get_prop E obj key T cast (Some D) func = Inr D)
    \<and> (\<forall>v c e. p (resolve_key key) = Some v \<and> py_isinstance v T \<and> cast = Some c \<and> c v = Inl e
          \<longrightarrow> get_prop E obj key T cast (Some D) func = Inr D)"
proof (intro conjI allI impI)
  show "\<exists>v. get_prop E obj key T cast (Some D) func = Inr v"
    by (cases "get_prop_try p (resolve_key key) T cast")
       (auto simp: get_prop_resolved [OF assms] get_prop_except_default)
next
  fix e pr
  assume "get_prop_try p (resolve_key key) T cast = Inl (e, pr)"
  then show "get_prop E obj key T cast (Some D) func = Inr D"
    by (simp add: get_prop_resolved [OF assms] get_prop_except_default)
next
  fix v c e
  assume "p (resolve_key key) = Some v \<and> py_isinstance v T \<and> cast = Some c \<and> c v = Inl e"
  then show "get_prop E obj key T cast (Some D) func = Inr D"
    by (simp add: get_prop_resolved [OF assms] get_prop_try_found get_prop_except_default)
qed

theorem default_swallows_every_exception_witness:
  "get_prop plain_env (FrameProps [''k'' \<mapsto> PyInt 5] :: unit holds) (StrKey ''k'') TInt
     (Some (\<lambda>v. raise_exc KeyboardInterrupt [])) (Some (PyStr ''x'')) None = Inr (PyStr ''x'')"
proof -
  have a: "resolve_props (FrameProps [''k'' \<mapsto> PyInt 5] :: unit holds) = Inr [''k'' \<mapsto> PyInt 5]"
    by simp
  show ?thesis
    using default_swallows_every_exception [OF a, where E = plain_env and key = "StrKey ''k''"
        and T = TInt and cast = "Some (\<lambda>v. raise_exc KeyboardInterrupt [])" and D = "PyStr ''x''"
        and func = None]
    by (simp add: py_isinstance_def raise_exc_def)
qed

text \<open>
  C5. The handler sorts the failure by the class of the exception, so what a cast raises
  on a present value of the expected type is reported as a failure of the lookup or of
  the type test. With \<open>{'k': 5}\<close>, \<open>t=int\<close> and no default: a cast that raises
  \<open>TypeError\<close> as \<open>list\<close> does on an integer gives the wrong-type message with both
  types (\<open>int\<close> twice), and a cast that raises \<open>KeyError\<close> gives the missing-key message
  for a key that is present.
\<close>

theorem cast_error_misreported:
  "get_prop plain_env (FrameProps [''k'' \<mapsto> PyInt 5] :: unit holds) (StrKey ''k'') TInt
      (Some (\<lambda>v. raise_exc TypeError [PyStr '''int' object is not iterable''])) None None
     = Inl \<lparr>exc_class = FramePropError,
            exc_args = [PyStr ''(get_prop) Key k did not contain expected type: Expected <class 'int'> got <class 'int'>!'']\<rparr>
   \<and> get_prop plain_env (FrameProps [''k'' \<mapsto> PyInt 5] :: unit holds) (StrKey ''k'') TInt
      (Some (\<lambda>v. raise_exc KeyError [PyInt 5])) None None
     = Inl \<lparr>exc_class = FramePropError,
            exc_args = [PyStr ''(get_prop) Key k not present in props!'']\<rparr>"
proof -
  have a: "resolve_props (FrameProps [''k'' \<mapsto> PyInt 5] :: unit holds) = Inr [''k'' \<mapsto> PyInt 5]"
    by simp
  have h: "func_header plain_env (Some (PyFunction ''get_prop'')) = ''(get_prop) ''"
    by (simp add: func_header_def plain_env_def)
  show ?thesis
    by (simp add: get_prop_resolved [OF a] get_prop_try_found py_isinstance_def raise_exc_def
        get_prop_except_wrong_type get_prop_except_missing raised_classes fallback_def h)
qed

section \<open>Merging clips\<close>

text \<open>
  C6. With a single clip \<open>merge_clip_props\<close> returns that clip itself, for every
  \<open>main_idx\<close>: the node returned has the identity of the argument, and the engine has made
  no node.
\<close>

theorem merge_clip_props_single:
  "merge_clip_props [n] main_idx fresh = (Inr n, fresh)"
  by (simp add: merge_clip_props_def py_getitem_def)

lemma frames_at_length: "frames_at clips n = Inr f \<Longrightarrow> length f = length clips"
  by (induction clips arbitrary: f) (auto split: sum.splits)

lemma merge_loop_eq:
  "merge_loop m (enumerate i fs) d =
     d\<lparr>props := foldl (++) (props d)
                  (map props (map snd (filter (\<lambda>q. int (fst q) \<noteq> m) (enumerate i fs))))\<rparr>"
  by (induction fs arbitrary: i d) simp_all

lemma others_take_drop:
  "map snd (filter (\<lambda>q. fst q \<noteq> k) (enumerate i fs)) =
     (if i \<le> k \<and> k < i + length fs then take (k - i) fs @ drop (Suc (k - i)) fs else fs)"
proof (induction fs arbitrary: i)
  case Nil
  show ?case by simp
next
  case (Cons x fs)
  show ?case
  proof (cases "i = k")
    case True
    then show ?thesis by (simp add: Cons.IH)
  next
    case False
    show ?thesis
    proof (cases "i < k")
      case True
      then obtain j where j: "k - i = Suc j" "k - Suc i = j"
        by (cases "k - i") auto
      from True show ?thesis
        by (auto simp: Cons.IH j)
    next
      case False
      with \<open>i \<noteq> k\<close> show ?thesis
        by (simp add: Cons.IH)
    qed
  qed
qed

text \<open>
  For two or more clips and \<open>main_idx\<close> the position of one of them, counted from the
  front (\<open>0 \<le> main_idx < len(clips)\<close>): at every frame index where the inputs yield
  frames, the frame of the merged clip has the content of the \<open>main_idx\<close>-th input's
  frame, and its properties are that frame's properties overridden, key by key and in
  input order, by the properties of every other input's frame, the \<open>main_idx\<close>-th itself
  left out. For \<open>merge_clip_props(a, b, main_idx=0)\<close>: a key of \<open>a\<close> that \<open>b\<close> lacks keeps
  \<open>a\<close>'s value, a key of \<open>b\<close> has \<open>b\<close>'s value whether or not \<open>a\<close> has it, the keys are
  those of \<open>a\<close> and of \<open>b\<close>, and the content is \<open>a\<close>'s.
\<close>

theorem merge_clip_props_merges:
  assumes "2 \<le> length clips" and "0 \<le> main_idx" and "main_idx < int (length clips)"
    and "frames_at clips n = Inr f"
  shows "\<exists>node fdst.
      merge_clip_props clips main_idx fresh = (Inr node, Suc fresh)
    \<and> node_id node = fresh
    \<and> get_frame node n = Inr fdst
    \<and> content fdst = content (f ! nat main_idx)
    \<and> props fdst = foldl (++) (props (f ! nat main_idx))
          (map props (take (nat main_idx) f @ drop (Suc (nat main_idx)) f))
    \<and> (\<forall>a b. f = [a, b] \<and> main_idx = 0 \<longrightarrow>
          (\<forall>k. (k \<in> dom (props a) \<and> k \<notin> dom (props b) \<longrightarrow> props fdst k = props a k)
             \<and> (k \<in> dom (props b) \<longrightarrow> props fdst k = props b k))
          \<and> dom (props fdst) = dom (props a) \<union> dom (props b)
          \<and> content fdst = content a)"
proof -
  define m where "m = nat main_idx"
  have mi: "main_idx = int m"
    using assms(2) by (simp add: m_def)
  have len: "length f = length clips"
    using assms(4) by (rule frames_at_length)
  have m: "m < length f"
    using assms(3) by (simp add: mi len)
  define fdst where "fdst = (f ! m)\<lparr>props := foldl (++) (props (f ! m))
      (map props (take m f @ drop (Suc m) f))\<rparr>"
  have get: "py_getitem f (int m) = Inr (f ! m)"
    using m by (simp add: py_getitem_def)
  have cb: "merge_props (int m) f n = Inr fdst"
    using m by (simp add: merge_props_def get merge_loop_eq others_take_drop fdst_def)
  obtain c cs where clips: "clips = c # cs"
    using assms(1) by (cases clips) auto
  have c0: "py_getitem clips 0 = Inr c"
    by (simp add: py_getitem_def clips)
  define node where "node = fst (ModifyFrame c clips (merge_props (int m)) fresh)"
  have r: "merge_clip_props clips main_idx fresh = (Inr node, Suc fresh)"
    using assms(1) by (simp add: merge_clip_props_def c0 mi node_def ModifyFrame_def)
  have fr: "get_frame node n = Inr fdst"
    by (simp add: node_def ModifyFrame_def assms(4) cb)
  have two: "\<forall>a b. f = [a, b] \<and> main_idx = 0 \<longrightarrow>
      (\<forall>k. (k \<in> dom (props a) \<and> k \<notin> dom (props b) \<longrightarrow> props fdst k = props a k)
         \<and> (k \<in> dom (props b) \<longrightarrow> props fdst k = props b k))
      \<and> dom (props fdst) = dom (props a) \<union> dom (props b)
      \<and> content fdst = content a"
  proof (intro allI impI)
    fix a b
    assume "f = [a, b] \<and> main_idx = 0"
    then have "f = [a, b]" and "m = 0"
      by (simp_all add: m_def)
    then have "props fdst = props a ++ props b" and "content fdst = content a"
      by (simp_all add: fdst_def)
    then show "(\<forall>k. (k \<in> dom (props a) \<and> k \<notin> dom (props b) \<longrightarrow> props fdst k = props a k)
         \<and> (k \<in> dom (props b) \<longrightarrow> props fdst k = props b k))
      \<and> dom (props fdst) = dom (props a) \<union> dom (props b)
      \<and> content fdst = content a"
      by (auto simp: map_add_dom_app_simps)
  qed
  have "node_id node = fresh"
    by (simp add: node_def ModifyFrame_def)
  moreover have "content fdst = content (f ! nat main_idx)"
    by (simp add: fdst_def m_def)
  moreover have "props fdst = foldl (++) (props (f ! nat main_idx))
      (map props (take (nat main_idx) f @ drop (Suc (nat main_idx)) f))"
    by (simp add: fdst_def m_def)
  ultimately show ?thesis
    using r fr two by blast
qed

theorem merge_clip_props_merges_witness:
  "\<exists>node fdst.
      merge_clip_props
        [const_clip 0 (10 :: nat) [''a'' \<mapsto> PyInt 1, ''b'' \<mapsto> PyInt 2],
         const_clip 1 (20 :: nat) [''b'' \<mapsto> PyInt 3, ''c'' \<mapsto> PyInt 4]] 0 2 = (Inr node, 3)
    \<and> node_id node = 2
    \<and> get_frame node 7 = Inr fdst
    \<and> content fdst = 10
    \<and> props fdst ''a'' = Some (PyInt 1)
    \<and> props fdst ''b'' = Some (PyInt 3)
    \<and> props fdst ''c'' = Some (PyInt 4)"
proof -
  let ?pa = "[''a'' \<mapsto> PyInt 1, ''b'' \<mapsto> PyInt 2]"
  let ?pb = "[''b'' \<mapsto> PyInt 3, ''c'' \<mapsto> PyInt 4]"
  let ?clips = "[const_clip 0 (10 :: nat) ?pa, const_clip 1 (20 :: nat) ?pb]"
  let ?f = "[\<lparr>content = 10 :: nat, props = ?pa\<rparr>, \<lparr>content = 20 :: nat, props = ?pb\<rparr>]"
  have l: "2 \<le> length ?clips"
    by simp
  have i: "(0 :: int) \<le> 0" "0 < int (length ?clips)"
    by simp_all
  have f: "frames_at ?clips 7 = Inr ?f"
    by (simp add: const_clip_def)
  from merge_clip_props_merges [OF l i f, where fresh = 2]
  obtain node fdst where
    "merge_clip_props ?clips 0 2 = (Inr node, Suc 2)" "node_id node = 2"
    "get_frame node 7 = Inr fdst" "content fdst = content (?f ! nat 0)"
    "props fdst = foldl (++) (props (?f ! nat 0)) (map props (take (nat 0) ?f @ drop (Suc (nat 0)) ?f))"
    by blast
  then have "merge_clip_props ?clips 0 2 = (Inr node, 3) \<and> node_id node = 2
      \<and> get_frame node 7 = Inr fdst \<and> content fdst = 10
      \<and> props fdst ''a'' = Some (PyInt 1) \<and> props fdst ''b'' = Some (PyInt 3)
      \<and> props fdst ''c'' = Some (PyInt 4)"
    by (simp add: map_add_def)
  then show ?thesis
    by blast
qed

text \<open>
  C4. The main input is skipped only when \<open>main_idx\<close> counts from the front. A negative
  \<open>main_idx\<close> selects the main frame through \<open>f[main_idx]\<close> but equals no index of
  \<open>enumerate(f)\<close>, so the main input's properties are written once more in its turn.
  With \<open>a = {k: 1, x: 5}\<close> and \<open>b = {k: 2}\<close>, \<open>merge_clip_props(a, b, main_idx=-1)\<close> takes
  \<open>b\<close> as the main input and leaves \<open>k\<close> at \<open>b\<close>'s value 2, where \<open>main_idx=1\<close>, the same
  main input, skips \<open>b\<close> and gives \<open>k\<close> the value 1 of \<open>a\<close>.
\<close>

theorem merge_clip_props_negative_main_idx:
  "(\<exists>node fdst.
      merge_clip_props
        [const_clip 0 (10 :: nat) [''k'' \<mapsto> PyInt 1, ''x'' \<mapsto> PyInt 5],
         const_clip 1 (20 :: nat) [''k'' \<mapsto> PyInt 2]] (- 1) 2 = (Inr node, 3)
    \<and> get_frame node 0 = Inr fdst
    \<and> content fdst = 20
    \<and> props fdst ''k'' = Some (PyInt 2)
    \<and> props fdst ''x'' = Some (PyInt 5))
   \<and> (\<exists>node fdst.
      merge_clip_props
        [const_clip 0 (10 :: nat) [''k'' \<mapsto> PyInt 1, ''x'' \<mapsto> PyInt 5],
         const_clip 1 (20 :: nat) [''k'' \<mapsto> PyInt 2]] 1 2 = (Inr node, 3)
    \<and> get_frame node 0 = Inr fdst
    \<and> content fdst = 20
    \<and> props fdst ''k'' = Some (PyInt 1)
    \<and> props fdst ''x'' = Some (PyInt 5))"
  by (simp add: merge_clip_props_def py_getitem_def ModifyFrame_def const_clip_def
      merge_props_def enumerate_eq_zip map_add_def)

end
